theory Spec2Isabelle
  imports Main
begin

section \<open>Data model\<close>

text \<open>
  A stored activity document has the five keys the seeding code writes. The four keys other
  than the primary key form the value that \<open>get_activities\<close> hands out, so the stored
  document is that record extended by the key \<open>_id\<close> (called \<open>doc_id\<close> here, since an
  identifier cannot begin with an underscore).
\<close>

record activity_data =
  description :: string
  schedule :: string
  max_participants :: int
  participants :: "string list"

record document = activity_data +
  doc_id :: string

text \<open>The collection \<open>db.activities\<close>, in the order the documents were inserted.\<close>

type_synonym collection = "document list"

datatype http_exception = HTTPException (status_code: int) (detail: string)

datatype store_error = DuplicateKey string

text \<open>A JSON object with string values, such as \<open>{"message": ...}\<close>.\<close>

type_synonym json_object = "(string \<times> string) list"

type_synonym result = "http_exception + json_object"

section \<open>The document store operations the handlers call\<close>

text \<open>\<open>count_documents({})\<close>: the number of documents held.\<close>

definition count_documents :: "collection \<Rightarrow> nat" where
  "count_documents c = length c"

text \<open>\<open>find({})\<close>: a cursor over every document.\<close>

definition find_all :: "collection \<Rightarrow> document list" where
  "find_all c = c"

text \<open>\<open>find_one({"_id": n})\<close>: the first document with that key, or nothing.\<close>

fun find_one :: "string \<Rightarrow> collection \<Rightarrow> document option" where
  "find_one n [] = None"
| "find_one n (d # ds) = (if doc_id d = n then Some d else find_one n ds)"

text \<open>
  \<open>insert_many(docs)\<close>: the documents are inserted in order; a document whose key is
  already present is refused, and the error ends the call.
\<close>

fun insert_many :: "document list \<Rightarrow> collection \<Rightarrow> store_error + collection" where
  "insert_many [] c = Inr c"
| "insert_many (d # ds) c =
     (if doc_id d \<in> set (map doc_id c) then Inl (DuplicateKey (doc_id d))
      else insert_many ds (c @ [d]))"

text \<open>\<open>$addToSet\<close> appends a value an array does not hold yet; \<open>$pull\<close> removes every
  occurrence of a value.\<close>

definition addToSet :: "string \<Rightarrow> string list \<Rightarrow> string list" where
  "addToSet e xs = (if e \<in> set xs then xs else xs @ [e])"

definition pull :: "string \<Rightarrow> string list \<Rightarrow> string list" where
  "pull e xs = filter (\<lambda>x. x \<noteq> e) xs"

text \<open>\<open>update_one({"_id": n}, u)\<close>: the update is applied to the first document with
  that key, and to no other.\<close>

fun update_one :: "string \<Rightarrow> (document \<Rightarrow> document) \<Rightarrow> collection \<Rightarrow> collection" where
  "update_one n u [] = []"
| "update_one n u (d # ds) = (if doc_id d = n then u d # ds else d # update_one n u ds)"

section \<open>Seeding\<close>

definition initial_activities :: "document list" where
  "initial_activities =
    [\<lparr>description = ''Learn strategies and compete in chess tournaments'',
      schedule = ''Fridays, 3:30 PM - 5:00 PM'',
      max_participants = 12,
      participants = [''michael@mergington.edu'', ''daniel@mergington.edu''],
      doc_id = ''Chess Club''\<rparr>,
     \<lparr>description = ''Learn programming fundamentals and build software projects'',
      schedule = ''Tuesdays and Thursdays, 3:30 PM - 4:30 PM'',
      max_participants = 20,
      participants = [''emma@mergington.edu'', ''sophia@mergington.edu''],
      doc_id = ''Programming Class''\<rparr>,
     \<lparr>description = ''Physical education and sports activities'',
      schedule = ''Mondays, Wednesdays, Fridays, 2:00 PM - 3:00 PM'',
      max_participants = 30,
      participants = [''john@mergington.edu'', ''olivia@mergington.edu''],
      doc_id = ''Gym Class''\<rparr>,
     \<lparr>description = ''Join the school soccer team and compete in local leagues'',
      schedule = ''Tuesdays and Thursdays, 4:00 PM - 5:30 PM'',
      max_participants = 18,
      participants = [''lucas@mergington.edu'', ''mia@mergington.edu''],
      doc_id = ''Soccer Team''\<rparr>,
     \<lparr>description = ''Practice basketball skills and play friendly matches'',
      schedule = ''Wednesdays, 3:30 PM - 5:00 PM'',
      max_participants = 15,
      participants = [''liam@mergington.edu'', ''ava@mergington.edu''],
      doc_id = ''Basketball Club''\<rparr>,
     \<lparr>description = ''Explore painting, drawing, and other visual arts'',
      schedule = ''Mondays, 3:30 PM - 5:00 PM'',
      max_participants = 16,
      participants = [''noah@mergington.edu'', ''isabella@mergington.edu''],
      doc_id = ''Art Club''\<rparr>,
     \<lparr>description = ''Participate in acting, stage production, and school plays'',
      schedule = ''Thursdays, 4:00 PM - 5:30 PM'',
      max_participants = 20,
      participants = [''ethan@mergington.edu'', ''charlotte@mergington.edu''],
      doc_id = ''Drama Society''\<rparr>,
     \<lparr>description = ''Prepare for math competitions and solve challenging problems'',
      schedule = ''Fridays, 2:00 PM - 3:30 PM'',
      max_participants = 10,
      participants = [''amelia@mergington.edu'', ''benjamin@mergington.edu''],
      doc_id = ''Math Olympiad''\<rparr>,
     \<lparr>description = ''Conduct experiments and explore scientific concepts'',
      schedule = ''Wednesdays, 4:00 PM - 5:00 PM'',
      max_participants = 14,
      participants = [''elijah@mergington.edu'', ''harper@mergington.edu''],
      doc_id = ''Science Club''\<rparr>]"

text \<open>\<open>initialize_database\<close> runs once, when the module is loaded. An error of the store
  is not caught, so it ends the start-up.\<close>

definition initialize_database :: "collection \<Rightarrow> store_error + collection" where
  "initialize_database c =
     (if count_documents c = 0 then insert_many initial_activities c else Inr c)"

section \<open>The request handlers\<close>

text \<open>The loop of \<open>get_activities\<close>: each document read from the cursor is stored in the
  answer under its name, without the name.\<close>

fun get_activities_loop ::
  "document list \<Rightarrow> (string \<rightharpoonup> activity_data) \<Rightarrow> (string \<rightharpoonup> activity_data)" where
  "get_activities_loop [] activities_dict = activities_dict"
| "get_activities_loop (activity # rest) activities_dict =
     get_activities_loop rest
       (activities_dict(doc_id activity \<mapsto>
          \<lparr>description = description activity,
           schedule = schedule activity,
           max_participants = max_participants activity,
           participants = participants activity\<rparr>))"

definition get_activities :: "collection \<Rightarrow> (string \<rightharpoonup> activity_data)" where
  "get_activities c = get_activities_loop (find_all c) Map.empty"

text \<open>A handler returns its answer together with the collection as it leaves it. A raised
  \<open>HTTPException\<close> is the left injection; nothing has been written when one is raised.\<close>

definition signup_for_activity :: "collection \<Rightarrow> string \<Rightarrow> string \<Rightarrow> result \<times> collection" where
  "signup_for_activity c activity_name email =
     (case find_one activity_name c of
        None \<Rightarrow> (Inl (HTTPException 404 ''Activity not found''), c)
      | Some activity \<Rightarrow>
          if email \<in> set (participants activity)
          then (Inl (HTTPException 400 ''Already signed up for this activity''), c)
          else if int (length (participants activity)) \<ge> max_participants activity
          then (Inl (HTTPException 400 ''Activity is full''), c)
          else (Inr [(''message'', ''Signed up '' @ email @ '' for '' @ activity_name)],
                update_one activity_name
                  (\<lambda>d. d\<lparr>participants := addToSet email (participants d)\<rparr>) c))"

definition unregister_from_activity :: "collection \<Rightarrow> string \<Rightarrow> string \<Rightarrow> result \<times> collection" where
  "unregister_from_activity c activity_name email =
     (case find_one activity_name c of
        None \<Rightarrow> (Inl (HTTPException 404 ''Activity not found''), c)
      | Some activity \<Rightarrow>
          if email \<notin> set (participants activity)
          then (Inl (HTTPException 400 ''Student not registered for this activity''), c)
          else (Inr [(''message'', ''Unregistered '' @ email @ '' from '' @ activity_name)],
                update_one activity_name
                  (\<lambda>d. d\<lparr>participants := pull email (participants d)\<rparr>) c))"

text \<open>The status line the framework sends: the code of a raised \<open>HTTPException\<close>, and 200
  for a handler that returns.\<close>

definition http_status :: "result \<Rightarrow> int" where
  "http_status r = (case r of Inl e \<Rightarrow> status_code e | Inr body \<Rightarrow> 200)"

text \<open>Write requests, and a run of them in which every request succeeds: the run is
  \<open>None\<close> as soon as one request is answered with an error.\<close>

datatype request = Signup string string | Unregister string string

fun handle :: "collection \<Rightarrow> request \<Rightarrow> result \<times> collection" where
  "handle c (Signup n e) = signup_for_activity c n e"
| "handle c (Unregister n e) = unregister_from_activity c n e"

fun run_successful :: "collection \<Rightarrow> request list \<Rightarrow> collection option" where
  "run_successful c [] = Some c"
| "run_successful c (r # rs) =
     (case handle c r of
        (Inl e, c') \<Rightarrow> None
      | (Inr body, c') \<Rightarrow> run_successful c' rs)"

section \<open>Facts about the store operations\<close>

lemma find_one_in_set: "find_one n c = Some d \<Longrightarrow> d \<in> set c \<and> doc_id d = n"
  by (induction c) (auto split: if_splits)

lemma find_one_None_iff: "find_one n c = None \<longleftrightarrow> n \<notin> doc_id ` set c"
  by (induction c) auto

lemma find_one_update_one:
  "find_one n c = Some d \<Longrightarrow> doc_id (u d) = n \<Longrightarrow> find_one n (update_one n u c) = Some (u d)"
  by (induction c) (auto split: if_splits)

lemma update_one_ids:
  "(\<And>d. doc_id (u d) = doc_id d) \<Longrightarrow> map doc_id (update_one n u c) = map doc_id c"
  by (induction c) auto

lemma length_update_one: "length (update_one n u c) = length c"
  by (induction c) auto

lemma set_update_one:
  "find_one n c = Some d \<Longrightarrow> set (update_one n u c) \<subseteq> insert (u d) (set c)"
  by (induction c) (auto split: if_splits)

lemma update_one_nth_other:
  "i < length c \<Longrightarrow> doc_id (c ! i) \<noteq> n \<Longrightarrow> update_one n u c ! i = c ! i"
proof (induction c arbitrary: i)
  case Nil
  then show ?case by simp
next
  case (Cons d ds)
  then show ?case by (cases i) auto
qed

lemma update_one_nth_cases:
  "i < length c \<Longrightarrow> update_one n u c ! i = c ! i \<or> update_one n u c ! i = u (c ! i)"
proof (induction c arbitrary: i)
  case Nil
  then show ?case by simp
next
  case (Cons d ds)
  then show ?case by (cases i) auto
qed

section \<open>The roster invariant\<close>

lemma seeded: "initialize_database [] = Inr initial_activities"
  by (simp add: initialize_database_def count_documents_def initial_activities_def)

lemma initial_roster:
  "\<forall>d \<in> set initial_activities. int (length (participants d)) \<le> max_participants d \<and> distinct (participants d)"
  by (simp add: initial_activities_def)

lemma signup_keeps_roster:
  assumes inv: "\<forall>d \<in> set c. int (length (participants d)) \<le> max_participants d \<and> distinct (participants d)"
    and ok: "signup_for_activity c n e = (Inr body, c')"
  shows "\<forall>d \<in> set c'. int (length (participants d)) \<le> max_participants d \<and> distinct (participants d)"
proof (cases "find_one n c")
  case None
  with ok show ?thesis by (simp add: signup_for_activity_def)
next
  case (Some a)
  let ?u = "\<lambda>d::document. d\<lparr>participants := addToSet e (participants d)\<rparr>"
  from Some ok have fresh: "e \<notin> set (participants a)"
    and room: "int (length (participants a)) < max_participants a"
    and c': "c' = update_one n ?u c"
    by (auto simp: signup_for_activity_def split: if_splits)
  from Some have "a \<in> set c" by (simp add: find_one_in_set)
  with inv have "distinct (participants a)" by blast
  with fresh room have ua: "int (length (participants (?u a))) \<le> max_participants (?u a) \<and> distinct (participants (?u a))"
    by (simp add: addToSet_def)
  from set_update_one [OF Some, of ?u] c' have "set c' \<subseteq> insert (?u a) (set c)" by simp
  with ua inv show ?thesis by blast
qed

lemma unregister_keeps_roster:
  assumes inv: "\<forall>d \<in> set c. int (length (participants d)) \<le> max_participants d \<and> distinct (participants d)"
    and ok: "unregister_from_activity c n e = (Inr body, c')"
  shows "\<forall>d \<in> set c'. int (length (participants d)) \<le> max_participants d \<and> distinct (participants d)"
proof (cases "find_one n c")
  case None
  with ok show ?thesis by (simp add: unregister_from_activity_def)
next
  case (Some a)
  let ?u = "\<lambda>d::document. d\<lparr>participants := pull e (participants d)\<rparr>"
  from Some ok have c': "c' = update_one n ?u c"
    by (auto simp: unregister_from_activity_def split: if_splits)
  from Some have "a \<in> set c" by (simp add: find_one_in_set)
  with inv have a: "int (length (participants a)) \<le> max_participants a" "distinct (participants a)" by blast+
  have "length (pull e (participants a)) \<le> length (participants a)"
    by (simp add: pull_def)
  with a(1) have len: "int (length (pull e (participants a))) \<le> max_participants a"
    by linarith
  from a(2) have "distinct (pull e (participants a))"
    by (simp add: pull_def)
  with len have ua: "int (length (participants (?u a))) \<le> max_participants (?u a) \<and> distinct (participants (?u a))"
    by simp
  from set_update_one [OF Some, of ?u] c' have "set c' \<subseteq> insert (?u a) (set c)" by simp
  with ua inv show ?thesis by blast
qed

lemma handle_keeps_roster:
  "\<forall>d \<in> set c. int (length (participants d)) \<le> max_participants d \<and> distinct (participants d) \<Longrightarrow>
   handle c r = (Inr body, c') \<Longrightarrow>
   \<forall>d \<in> set c'. int (length (participants d)) \<le> max_participants d \<and> distinct (participants d)"
  by (cases r) (auto dest: signup_keeps_roster unregister_keeps_roster simp del: split_paired_All)

lemma run_keeps_roster:
  "\<forall>d \<in> set c. int (length (participants d)) \<le> max_participants d \<and> distinct (participants d) \<Longrightarrow>
   run_successful c rs = Some c' \<Longrightarrow>
   \<forall>d \<in> set c'. int (length (participants d)) \<le> max_participants d \<and> distinct (participants d)"
proof (induction rs arbitrary: c)
  case Nil
  then show ?case by simp
next
  case (Cons r rs)
  obtain res c1 where h: "handle c r = (res, c1)" by (cases "handle c r")
  with Cons.prems(2) obtain body where b: "res = Inr body" and run: "run_successful c1 rs = Some c'"
    by (cases res) auto
  from handle_keeps_roster [OF Cons.prems(1)] h b
  have "\<forall>d \<in> set c1. int (length (participants d)) \<le> max_participants d \<and> distinct (participants d)"
    by blast
  from Cons.IH [OF this run] show ?case .
qed

text \<open>
  Claim C1. Start from the collection that seeding an empty store leaves, and answer any
  sequence of signup and unregister requests, each of which succeeds. Then every activity
  \<open>A\<close> of the resulting collection has at most \<open>max_participants A\<close> participants, and no
  email occurs twice among them.
\<close>

theorem roster_invariant:
  "initialize_database [] = Inr c0 \<Longrightarrow> run_successful c0 rs = Some c \<Longrightarrow> A \<in> set c \<Longrightarrow>
   int (length (participants A)) \<le> max_participants A \<and> distinct (participants A)"
  using run_keeps_roster [OF initial_roster, of rs c] by (simp add: seeded)

theorem roster_invariant_witness:
  "initialize_database [] = Inr initial_activities \<and>
   run_successful initial_activities
     [Signup ''Chess Club'' ''new@mergington.edu'',
      Unregister ''Chess Club'' ''michael@mergington.edu''] =
     Some (\<lparr>description = ''Learn strategies and compete in chess tournaments'',
            schedule = ''Fridays, 3:30 PM - 5:00 PM'',
            max_participants = 12,
            participants = [''daniel@mergington.edu'', ''new@mergington.edu''],
            doc_id = ''Chess Club''\<rparr> # tl initial_activities) \<and>
   int (length [''daniel@mergington.edu'', ''new@mergington.edu'']) \<le> 12 \<and>
   distinct [''daniel@mergington.edu'', ''new@mergington.edu'']"
proof -
  let ?A = "\<lparr>description = ''Learn strategies and compete in chess tournaments'',
            schedule = ''Fridays, 3:30 PM - 5:00 PM'',
            max_participants = 12,
            participants = [''daniel@mergington.edu'', ''new@mergington.edu''],
            doc_id = ''Chess Club''\<rparr>"
  have h1: "initialize_database [] = Inr initial_activities"
    by (simp add: initialize_database_def count_documents_def initial_activities_def)
  have h2: "run_successful initial_activities
     [Signup ''Chess Club'' ''new@mergington.edu'',
      Unregister ''Chess Club'' ''michael@mergington.edu''] = Some (?A # tl initial_activities)"
    by (simp add: initial_activities_def signup_for_activity_def unregister_from_activity_def
        addToSet_def pull_def)
  have h3: "?A \<in> set (?A # tl initial_activities)" by simp
  from roster_invariant [OF h1 h2 h3] h1 h2 show ?thesis by simp
qed

section \<open>Facts about the array updates and the listing loop\<close>

lemma addToSet_fresh: "e \<notin> set xs \<Longrightarrow> addToSet e xs = xs @ [e]"
  by (simp add: addToSet_def)

lemma set_pull: "set (pull e xs) = set xs - {e}"
  by (auto simp: pull_def)

lemma find_one_append:
  "find_one n (xs @ ys) = (case find_one n xs of None \<Rightarrow> find_one n ys | Some d \<Rightarrow> Some d)"
  by (induction xs) auto

lemma get_activities_loop_lookup:
  "get_activities_loop ds m n =
     (case find_one n (rev ds) of None \<Rightarrow> m n | Some d \<Rightarrow> Some (activity_data.truncate d))"
  by (induction ds arbitrary: m)
    (auto simp: find_one_append activity_data.truncate_def split: option.splits)

lemma get_activities_lookup:
  "get_activities c n = map_option activity_data.truncate (find_one n (rev c))"
  by (simp add: get_activities_def find_all_def get_activities_loop_lookup split: option.splits)

lemma find_one_distinct:
  "distinct (map doc_id c) \<Longrightarrow> d \<in> set c \<Longrightarrow> find_one (doc_id d) c = Some d"
  by (induction c) auto

lemma dom_get_activities: "dom (get_activities c) = doc_id ` set c"
proof -
  have "n \<in> dom (get_activities c) \<longleftrightarrow> n \<in> doc_id ` set c" for n
    using find_one_None_iff [of n "rev c"] by (auto simp: get_activities_lookup dom_def)
  then show ?thesis by blast
qed

lemma get_activities_distinct:
  assumes "distinct (map doc_id c)" and "d \<in> set c"
  shows "get_activities c (doc_id d) = Some (activity_data.truncate d)"
proof -
  from assms have "find_one (doc_id d) (rev c) = Some d"
    by (intro find_one_distinct) (simp_all add: rev_map [symmetric])
  then show ?thesis by (simp add: get_activities_lookup)
qed

lemma extend_truncate:
  "activity_data.extend (activity_data.truncate d) (document.fields (doc_id d)) = (d::document)"
  by (cases d) (simp add: activity_data.defs document.defs)

lemma initial_ids:
  "map doc_id initial_activities =
     [''Chess Club'', ''Programming Class'', ''Gym Class'', ''Soccer Team'', ''Basketball Club'',
      ''Art Club'', ''Drama Society'', ''Math Olympiad'', ''Science Club'']"
  by (simp add: initial_activities_def)

lemma initial_ids_distinct: "distinct (map doc_id initial_activities)"
  unfolding initial_ids by simp

lemma update_one_participants_nth:
  assumes "i < length c"
  shows "update_one n (\<lambda>d. d\<lparr>participants := f (participants d)\<rparr>) c ! i =
         (c ! i)\<lparr>participants := participants
            (update_one n (\<lambda>d. d\<lparr>participants := f (participants d)\<rparr>) c ! i)\<rparr>"
  using update_one_nth_cases [OF assms, of n "\<lambda>d. d\<lparr>participants := f (participants d)\<rparr>"]
  by auto

lemma handle_cases:
  "handle c r = (res, c') \<Longrightarrow> r = Signup n e \<or> r = Unregister n e \<Longrightarrow>
   c' = c \<or> (\<exists>f. c' = update_one n (\<lambda>d. d\<lparr>participants := f (participants d)\<rparr>) c)"
  by (auto simp: signup_for_activity_def unregister_from_activity_def
      split: option.splits if_splits)

lemma handle_ids: "map doc_id (snd (handle c r)) = map doc_id c"
proof -
  obtain res c' where h: "handle c r = (res, c')" by (cases "handle c r")
  obtain n e where "r = Signup n e \<or> r = Unregister n e" by (cases r) auto
  from handle_cases [OF h this] have "map doc_id c' = map doc_id c"
    by (auto simp: update_one_ids)
  with h show ?thesis by simp
qed

lemma run_ids: "run_successful c rs = Some c' \<Longrightarrow> map doc_id c' = map doc_id c"
proof (induction rs arbitrary: c)
  case Nil
  then show ?case by simp
next
  case (Cons r rs)
  obtain res c1 where h: "handle c r = (res, c1)" by (cases "handle c r")
  with Cons.prems have "run_successful c1 rs = Some c'" by (cases res) auto
  then have "map doc_id c' = map doc_id c1" by (rule Cons.IH)
  with handle_ids [of c r] h show ?case by simp
qed

section \<open>Signing up\<close>

text \<open>
  Claim C2. A signup for activity name \<open>n\<close> and email \<open>e\<close> is answered with status 404
  when no activity has that name; with status 400 and "Already signed up for this activity"
  when \<open>e\<close> is among the participants of the activity; with status 400 and "Activity is full"
  when \<open>e\<close> is not among them and they are at least \<open>max_participants\<close> many; and otherwise
  with status 200 and a confirmation message, after which the activity stored under \<open>n\<close>
  is the former one with \<open>e\<close> added to its participants. The three errors leave the
  collection as it was.
\<close>

theorem signup_outcomes:
  "(find_one n c = None \<longrightarrow>
      signup_for_activity c n e = (Inl (HTTPException 404 ''Activity not found''), c) \<and>
      http_status (fst (signup_for_activity c n e)) = 404) \<and>
   (find_one n c = Some A \<and> e \<in> set (participants A) \<longrightarrow>
      signup_for_activity c n e =
        (Inl (HTTPException 400 ''Already signed up for this activity''), c) \<and>
      http_status (fst (signup_for_activity c n e)) = 400) \<and>
   (find_one n c = Some A \<and> e \<notin> set (participants A) \<and>
    int (length (participants A)) \<ge> max_participants A \<longrightarrow>
      signup_for_activity c n e = (Inl (HTTPException 400 ''Activity is full''), c) \<and>
      http_status (fst (signup_for_activity c n e)) = 400) \<and>
   (find_one n c = Some A \<and> e \<notin> set (participants A) \<and>
    int (length (participants A)) < max_participants A \<longrightarrow>
      fst (signup_for_activity c n e) =
        Inr [(''message'', ''Signed up '' @ e @ '' for '' @ n)] \<and>
      http_status (fst (signup_for_activity c n e)) = 200 \<and>
      find_one n (snd (signup_for_activity c n e)) =
        Some (A\<lparr>participants := participants A @ [e]\<rparr>))"
proof -
  have "find_one n c = Some A \<Longrightarrow> e \<notin> set (participants A) \<Longrightarrow>
    find_one n (update_one n (\<lambda>d. d\<lparr>participants := addToSet e (participants d)\<rparr>) c) =
      Some (A\<lparr>participants := participants A @ [e]\<rparr>)"
    using find_one_update_one [of n c A "\<lambda>d. d\<lparr>participants := addToSet e (participants d)\<rparr>"]
      find_one_in_set [of n c A]
    by (simp add: addToSet_fresh)
  then show ?thesis
    by (simp add: signup_for_activity_def http_status_def)
qed

theorem signup_outcomes_witness:
  "find_one ''Debate Club'' initial_activities = None \<and>
   signup_for_activity initial_activities ''Debate Club'' ''new@mergington.edu'' =
     (Inl (HTTPException 404 ''Activity not found''), initial_activities) \<and>
   ''michael@mergington.edu'' \<in> set (participants (hd initial_activities)) \<and>
   signup_for_activity initial_activities ''Chess Club'' ''michael@mergington.edu'' =
     (Inl (HTTPException 400 ''Already signed up for this activity''), initial_activities) \<and>
   signup_for_activity
     [\<lparr>description = ''Duet'', schedule = ''Mondays'', max_participants = 1,
       participants = [''a@mergington.edu''], doc_id = ''Duet''\<rparr>]
     ''Duet'' ''b@mergington.edu'' =
     (Inl (HTTPException 400 ''Activity is full''),
      [\<lparr>description = ''Duet'', schedule = ''Mondays'', max_participants = 1,
        participants = [''a@mergington.edu''], doc_id = ''Duet''\<rparr>]) \<and>
   http_status (fst (signup_for_activity initial_activities ''Chess Club''
     ''new@mergington.edu'')) = 200 \<and>
   find_one ''Chess Club'' (snd (signup_for_activity initial_activities ''Chess Club''
     ''new@mergington.edu'')) =
     Some \<lparr>description = ''Learn strategies and compete in chess tournaments'',
           schedule = ''Fridays, 3:30 PM - 5:00 PM'',
           max_participants = 12,
           participants = [''michael@mergington.edu'', ''daniel@mergington.edu'',
                           ''new@mergington.edu''],
           doc_id = ''Chess Club''\<rparr>"
proof -
  let ?duet = "\<lparr>description = ''Duet'', schedule = ''Mondays'', max_participants = 1,
       participants = [''a@mergington.edu''], doc_id = ''Duet''\<rparr>"
  have none: "find_one ''Debate Club'' initial_activities = None"
    by (simp add: initial_activities_def)
  have chess: "find_one ''Chess Club'' initial_activities = Some (hd initial_activities)"
    by (simp add: initial_activities_def)
  have member: "''michael@mergington.edu'' \<in> set (participants (hd initial_activities))"
    by (simp add: initial_activities_def)
  have fresh: "''new@mergington.edu'' \<notin> set (participants (hd initial_activities))"
    by (simp add: initial_activities_def)
  have room: "int (length (participants (hd initial_activities)))
      < max_participants (hd initial_activities)"
    by (simp add: initial_activities_def)
  have duet: "find_one ''Duet'' [?duet] = Some ?duet" by simp
  have duet_fresh: "''b@mergington.edu'' \<notin> set (participants ?duet)" by simp
  have duet_full: "int (length (participants ?duet)) \<ge> max_participants ?duet" by simp
  have after: "(hd initial_activities)\<lparr>participants :=
      participants (hd initial_activities) @ [''new@mergington.edu'']\<rparr> =
     \<lparr>description = ''Learn strategies and compete in chess tournaments'',
           schedule = ''Fridays, 3:30 PM - 5:00 PM'',
           max_participants = 12,
           participants = [''michael@mergington.edu'', ''daniel@mergington.edu'',
                           ''new@mergington.edu''],
           doc_id = ''Chess Club''\<rparr>"
    by (simp add: initial_activities_def)
  from signup_outcomes [where n = "''Debate Club''" and c = initial_activities
      and e = "''new@mergington.edu''"] none
  have w1: "signup_for_activity initial_activities ''Debate Club'' ''new@mergington.edu'' =
     (Inl (HTTPException 404 ''Activity not found''), initial_activities)"
    by blast
  from signup_outcomes [where n = "''Chess Club''" and c = initial_activities
      and A = "hd initial_activities" and e = "''michael@mergington.edu''"] chess member
  have w2: "signup_for_activity initial_activities ''Chess Club'' ''michael@mergington.edu'' =
     (Inl (HTTPException 400 ''Already signed up for this activity''), initial_activities)"
    by blast
  from signup_outcomes [where n = "''Duet''" and c = "[?duet]" and A = ?duet
      and e = "''b@mergington.edu''"]
    duet duet_fresh duet_full
  have w3: "signup_for_activity [?duet] ''Duet'' ''b@mergington.edu'' =
     (Inl (HTTPException 400 ''Activity is full''), [?duet])"
    by blast
  from signup_outcomes [where n = "''Chess Club''" and c = initial_activities
      and A = "hd initial_activities" and e = "''new@mergington.edu''"] chess fresh room
  have w4: "http_status (fst (signup_for_activity initial_activities ''Chess Club''
       ''new@mergington.edu'')) = 200 \<and>
     find_one ''Chess Club'' (snd (signup_for_activity initial_activities ''Chess Club''
       ''new@mergington.edu'')) =
     Some ((hd initial_activities)\<lparr>participants :=
       participants (hd initial_activities) @ [''new@mergington.edu'']\<rparr>)"
    by blast
  from none member w1 w2 w3 w4 show ?thesis
    unfolding after by blast
qed

section \<open>Unregistering\<close>

text \<open>
  Claim C3. An unregister request for activity name \<open>n\<close> and email \<open>e\<close> is answered with
  status 404 when no activity has that name; with status 400 and "Student not registered for
  this activity" when \<open>e\<close> is not among the participants of the activity; and otherwise with
  status 200 and a confirmation message, after which the activity stored under \<open>n\<close> differs
  from the former one in its participants only, and these are the former ones without
  \<open>e\<close>.
\<close>

theorem unregister_outcomes:
  "(find_one n c = None \<longrightarrow>
      unregister_from_activity c n e = (Inl (HTTPException 404 ''Activity not found''), c) \<and>
      http_status (fst (unregister_from_activity c n e)) = 404) \<and>
   (find_one n c = Some A \<and> e \<notin> set (participants A) \<longrightarrow>
      unregister_from_activity c n e =
        (Inl (HTTPException 400 ''Student not registered for this activity''), c) \<and>
      http_status (fst (unregister_from_activity c n e)) = 400) \<and>
   (find_one n c = Some A \<and> e \<in> set (participants A) \<longrightarrow>
      fst (unregister_from_activity c n e) =
        Inr [(''message'', ''Unregistered '' @ e @ '' from '' @ n)] \<and>
      http_status (fst (unregister_from_activity c n e)) = 200 \<and>
      (\<exists>A'. find_one n (snd (unregister_from_activity c n e)) = Some A' \<and>
            A' = A\<lparr>participants := participants A'\<rparr> \<and>
            set (participants A') = set (participants A) - {e}))"
proof -
  have "find_one n c = Some A \<Longrightarrow>
    find_one n (update_one n (\<lambda>d. d\<lparr>participants := pull e (participants d)\<rparr>) c) =
      Some (A\<lparr>participants := pull e (participants A)\<rparr>)"
    using find_one_update_one [of n c A "\<lambda>d. d\<lparr>participants := pull e (participants d)\<rparr>"]
      find_one_in_set [of n c A]
    by simp
  then show ?thesis
    by (simp add: unregister_from_activity_def http_status_def set_pull)
qed

theorem unregister_outcomes_witness:
  "find_one ''Debate Club'' initial_activities = None \<and>
   unregister_from_activity initial_activities ''Debate Club'' ''michael@mergington.edu'' =
     (Inl (HTTPException 404 ''Activity not found''), initial_activities) \<and>
   ''new@mergington.edu'' \<notin> set (participants (hd initial_activities)) \<and>
   unregister_from_activity initial_activities ''Chess Club'' ''new@mergington.edu'' =
     (Inl (HTTPException 400 ''Student not registered for this activity''),
      initial_activities) \<and>
   ''michael@mergington.edu'' \<in> set (participants (hd initial_activities)) \<and>
   fst (unregister_from_activity initial_activities ''Chess Club'' ''michael@mergington.edu'') =
     Inr [(''message'', ''Unregistered michael@mergington.edu from Chess Club'')] \<and>
   http_status (fst (unregister_from_activity initial_activities ''Chess Club''
     ''michael@mergington.edu'')) = 200"
proof -
  have none: "find_one ''Debate Club'' initial_activities = None"
    by (simp add: initial_activities_def)
  have chess: "find_one ''Chess Club'' initial_activities = Some (hd initial_activities)"
    by (simp add: initial_activities_def)
  have member: "''michael@mergington.edu'' \<in> set (participants (hd initial_activities))"
    by (simp add: initial_activities_def)
  have absent: "''new@mergington.edu'' \<notin> set (participants (hd initial_activities))"
    by (simp add: initial_activities_def)
  from unregister_outcomes [where n = "''Debate Club''" and c = initial_activities
      and e = "''michael@mergington.edu''"] none
  have w1: "unregister_from_activity initial_activities ''Debate Club''
      ''michael@mergington.edu'' =
     (Inl (HTTPException 404 ''Activity not found''), initial_activities)"
    by blast
  from unregister_outcomes [where n = "''Chess Club''" and c = initial_activities
      and A = "hd initial_activities" and e = "''new@mergington.edu''"] chess absent
  have w2: "unregister_from_activity initial_activities ''Chess Club'' ''new@mergington.edu'' =
     (Inl (HTTPException 400 ''Student not registered for this activity''),
      initial_activities)"
    by blast
  from unregister_outcomes [where n = "''Chess Club''" and c = initial_activities
      and A = "hd initial_activities" and e = "''michael@mergington.edu''"] chess member
  have w3: "fst (unregister_from_activity initial_activities ''Chess Club''
       ''michael@mergington.edu'') =
     Inr [(''message'', ''Unregistered '' @ ''michael@mergington.edu'' @ '' from '' @
       ''Chess Club'')] \<and>
     http_status (fst (unregister_from_activity initial_activities ''Chess Club''
       ''michael@mergington.edu'')) = 200"
    by blast
  from none absent member w1 w2 w3 show ?thesis by (simp add: http_status_def)
qed

section \<open>Signing up twice\<close>

text \<open>
  Claim C4. In every collection, signing up an email that is already among the participants
  of the activity \<open>A\<close> stored under the name is answered with the error "Already signed up
  for this activity", and the collection returned is the one given.
\<close>

theorem signup_again_unchanged:
  "find_one n c = Some A \<Longrightarrow> e \<in> set (participants A) \<Longrightarrow>
   signup_for_activity c n e =
     (Inl (HTTPException 400 ''Already signed up for this activity''), c)"
  by (simp add: signup_for_activity_def)

theorem signup_again_unchanged_witness:
  "find_one ''Chess Club'' initial_activities = Some (hd initial_activities) \<and>
   ''daniel@mergington.edu'' \<in> set (participants (hd initial_activities)) \<and>
   signup_for_activity initial_activities ''Chess Club'' ''daniel@mergington.edu'' =
     (Inl (HTTPException 400 ''Already signed up for this activity''), initial_activities)"
proof -
  have chess: "find_one ''Chess Club'' initial_activities = Some (hd initial_activities)"
    by (simp add: initial_activities_def)
  have member: "''daniel@mergington.edu'' \<in> set (participants (hd initial_activities))"
    by (simp add: initial_activities_def)
  from signup_again_unchanged [OF chess member] chess member show ?thesis by simp
qed

section \<open>A full activity\<close>

text \<open>
  Claim C5. In every collection, when the activity \<open>A\<close> stored under the name has exactly
  \<open>max_participants A\<close> participants and the email is not one of them, the signup is answered
  with the error "Activity is full"; the collection returned is the one given, so the
  participants of \<open>A\<close> are not changed.
\<close>

theorem signup_full_unchanged:
  "find_one n c = Some A \<Longrightarrow> int (length (participants A)) = max_participants A \<Longrightarrow>
   e \<notin> set (participants A) \<Longrightarrow>
   signup_for_activity c n e = (Inl (HTTPException 400 ''Activity is full''), c) \<and>
   find_one n (snd (signup_for_activity c n e)) = Some A"
  by (simp add: signup_for_activity_def)

theorem signup_full_unchanged_witness:
  "int (length [''a@mergington.edu'', ''b@mergington.edu'']) = 2 \<and>
   ''c@mergington.edu'' \<notin> set [''a@mergington.edu'', ''b@mergington.edu''] \<and>
   signup_for_activity
     [\<lparr>description = ''Duet'', schedule = ''Mondays'', max_participants = 2,
       participants = [''a@mergington.edu'', ''b@mergington.edu''], doc_id = ''Duet''\<rparr>]
     ''Duet'' ''c@mergington.edu'' =
     (Inl (HTTPException 400 ''Activity is full''),
      [\<lparr>description = ''Duet'', schedule = ''Mondays'', max_participants = 2,
        participants = [''a@mergington.edu'', ''b@mergington.edu''], doc_id = ''Duet''\<rparr>])"
proof -
  let ?duet = "\<lparr>description = ''Duet'', schedule = ''Mondays'', max_participants = 2,
       participants = [''a@mergington.edu'', ''b@mergington.edu''], doc_id = ''Duet''\<rparr>"
  have found: "find_one ''Duet'' [?duet] = Some ?duet" by simp
  have full: "int (length (participants ?duet)) = max_participants ?duet" by simp
  have fresh: "''c@mergington.edu'' \<notin> set (participants ?duet)" by simp
  from signup_full_unchanged [OF found full fresh] show ?thesis by simp
qed

section \<open>Unregistering twice\<close>

text \<open>
  Claim C6. Unregistering an email that is not among the participants of the activity \<open>A\<close>
  is answered with status 400 and "Student not registered for this activity", and the
  collection returned is the one given. In particular, when the email is among the
  participants, unregistering it succeeds, and unregistering it again from the resulting
  collection is answered with that error.
\<close>

theorem unregister_absent_unchanged:
  "(find_one n c = Some A \<and> e \<notin> set (participants A) \<longrightarrow>
      unregister_from_activity c n e =
        (Inl (HTTPException 400 ''Student not registered for this activity''), c)) \<and>
   (find_one n c = Some A \<and> e \<in> set (participants A) \<longrightarrow>
      (\<exists>body c'. unregister_from_activity c n e = (Inr body, c') \<and>
         unregister_from_activity c' n e =
           (Inl (HTTPException 400 ''Student not registered for this activity''), c')))"
proof -
  have "find_one n c = Some A \<Longrightarrow>
    find_one n (update_one n (\<lambda>d. d\<lparr>participants := pull e (participants d)\<rparr>) c) =
      Some (A\<lparr>participants := pull e (participants A)\<rparr>)"
    using find_one_update_one [of n c A "\<lambda>d. d\<lparr>participants := pull e (participants d)\<rparr>"]
      find_one_in_set [of n c A]
    by simp
  then show ?thesis
    by (simp add: unregister_from_activity_def set_pull)
qed

theorem unregister_absent_unchanged_witness:
  "''new@mergington.edu'' \<notin> set (participants (hd initial_activities)) \<and>
   unregister_from_activity initial_activities ''Chess Club'' ''new@mergington.edu'' =
     (Inl (HTTPException 400 ''Student not registered for this activity''),
      initial_activities) \<and>
   ''michael@mergington.edu'' \<in> set (participants (hd initial_activities)) \<and>
   (\<exists>body c'.
      unregister_from_activity initial_activities ''Chess Club'' ''michael@mergington.edu'' =
        (Inr body, c') \<and>
      unregister_from_activity c' ''Chess Club'' ''michael@mergington.edu'' =
        (Inl (HTTPException 400 ''Student not registered for this activity''), c'))"
proof -
  have chess: "find_one ''Chess Club'' initial_activities = Some (hd initial_activities)"
    by (simp add: initial_activities_def)
  have member: "''michael@mergington.edu'' \<in> set (participants (hd initial_activities))"
    by (simp add: initial_activities_def)
  have absent: "''new@mergington.edu'' \<notin> set (participants (hd initial_activities))"
    by (simp add: initial_activities_def)
  from unregister_absent_unchanged [where n = "''Chess Club''" and c = initial_activities
      and A = "hd initial_activities" and e = "''new@mergington.edu''"] chess absent
  have w1: "unregister_from_activity initial_activities ''Chess Club'' ''new@mergington.edu'' =
     (Inl (HTTPException 400 ''Student not registered for this activity''),
      initial_activities)"
    by blast
  from unregister_absent_unchanged [where n = "''Chess Club''" and c = initial_activities
      and A = "hd initial_activities" and e = "''michael@mergington.edu''"] chess member
  have w2: "\<exists>body c'.
      unregister_from_activity initial_activities ''Chess Club'' ''michael@mergington.edu'' =
        (Inr body, c') \<and>
      unregister_from_activity c' ''Chess Club'' ''michael@mergington.edu'' =
        (Inl (HTTPException 400 ''Student not registered for this activity''), c')"
    by blast
  from absent member w1 w2 show ?thesis by blast
qed

section \<open>Seeding and the first listing\<close>

text \<open>
  Claim C7. Seeding inserts the fixed activities exactly when the collection holds no
  document, and leaves any other collection as it is. The fixed activities are 9, and right
  after seeding an empty collection \<open>get_activities\<close> returns exactly the 9 names, each with
  the literal data of the seed; "Chess Club" has the participants michael and daniel and
  \<open>max_participants\<close> 12.
\<close>

theorem seeding:
  "(count_documents c = 0 \<longrightarrow> initialize_database c = Inr initial_activities) \<and>
   (count_documents c \<noteq> 0 \<longrightarrow> initialize_database c = Inr c) \<and>
   length initial_activities = 9 \<and>
   (\<exists>s. initialize_database [] = Inr s \<and>
      dom (get_activities s) =
        {''Chess Club'', ''Programming Class'', ''Gym Class'', ''Soccer Team'',
         ''Basketball Club'', ''Art Club'', ''Drama Society'', ''Math Olympiad'',
         ''Science Club''} \<and>
      card (dom (get_activities s)) = 9 \<and>
      (\<forall>d \<in> set initial_activities.
         get_activities s (doc_id d) = Some (activity_data.truncate d)) \<and>
      get_activities s ''Chess Club'' =
        Some \<lparr>description = ''Learn strategies and compete in chess tournaments'',
              schedule = ''Fridays, 3:30 PM - 5:00 PM'',
              max_participants = 12,
              participants = [''michael@mergington.edu'', ''daniel@mergington.edu'']\<rparr>)"
proof -
  have empty: "count_documents c = 0 \<longrightarrow> initialize_database c = Inr initial_activities"
    using seeded by (auto simp: count_documents_def)
  have other: "count_documents c \<noteq> 0 \<longrightarrow> initialize_database c = Inr c"
    by (simp add: initialize_database_def)
  have nine: "length initial_activities = 9"
    by (simp add: initial_activities_def)
  have "set (map doc_id initial_activities) =
        {''Chess Club'', ''Programming Class'', ''Gym Class'', ''Soccer Team'',
         ''Basketball Club'', ''Art Club'', ''Drama Society'', ''Math Olympiad'',
         ''Science Club''}"
    unfolding initial_ids by simp
  then have names: "dom (get_activities initial_activities) =
        {''Chess Club'', ''Programming Class'', ''Gym Class'', ''Soccer Team'',
         ''Basketball Club'', ''Art Club'', ''Drama Society'', ''Math Olympiad'',
         ''Science Club''}"
    by (simp add: dom_get_activities)
  have "card (set (map doc_id initial_activities)) = length (map doc_id initial_activities)"
    using initial_ids_distinct by (rule distinct_card)
  then have count: "card (dom (get_activities initial_activities)) = 9"
    using nine by (simp add: dom_get_activities)
  have each: "\<forall>d \<in> set initial_activities.
         get_activities initial_activities (doc_id d) = Some (activity_data.truncate d)"
    using get_activities_distinct [OF initial_ids_distinct] by blast
  have chess: "hd initial_activities \<in> set initial_activities"
    by (simp add: initial_activities_def)
  have "get_activities initial_activities ''Chess Club'' =
        Some \<lparr>description = ''Learn strategies and compete in chess tournaments'',
              schedule = ''Fridays, 3:30 PM - 5:00 PM'',
              max_participants = 12,
              participants = [''michael@mergington.edu'', ''daniel@mergington.edu'']\<rparr>"
    using get_activities_distinct [OF initial_ids_distinct chess]
    by (simp add: initial_activities_def activity_data.truncate_def)
  with empty other nine names count each seeded show ?thesis by blast
qed

theorem seeding_witness:
  "count_documents [] = 0 \<and>
   initialize_database [] = Inr initial_activities \<and>
   count_documents
     [\<lparr>description = ''Duet'', schedule = ''Mondays'', max_participants = 2,
       participants = [], doc_id = ''Duet''\<rparr>] \<noteq> 0 \<and>
   initialize_database
     [\<lparr>description = ''Duet'', schedule = ''Mondays'', max_participants = 2,
       participants = [], doc_id = ''Duet''\<rparr>] =
     Inr [\<lparr>description = ''Duet'', schedule = ''Mondays'', max_participants = 2,
           participants = [], doc_id = ''Duet''\<rparr>] \<and>
   get_activities initial_activities ''Science Club'' =
     Some \<lparr>description = ''Conduct experiments and explore scientific concepts'',
           schedule = ''Wednesdays, 4:00 PM - 5:00 PM'',
           max_participants = 14,
           participants = [''elijah@mergington.edu'', ''harper@mergington.edu'']\<rparr>"
proof -
  let ?duet = "\<lparr>description = ''Duet'', schedule = ''Mondays'', max_participants = 2,
       participants = [], doc_id = ''Duet''\<rparr>"
  have e: "count_documents [] = 0" by (simp add: count_documents_def)
  have ne: "count_documents [?duet] \<noteq> 0" by (simp add: count_documents_def)
  have science: "last initial_activities \<in> set initial_activities"
    by (simp add: initial_activities_def)
  from seeding [of "[]"] e have w1: "initialize_database [] = Inr initial_activities"
    by blast
  from seeding [of "[?duet]"] ne have w2: "initialize_database [?duet] = Inr [?duet]"
    by blast
  from seeding [of "[]"] w1 science
  have "get_activities initial_activities (doc_id (last initial_activities)) =
      Some (activity_data.truncate (last initial_activities))"
    by auto
  then have w3: "get_activities initial_activities ''Science Club'' =
     Some \<lparr>description = ''Conduct experiments and explore scientific concepts'',
           schedule = ''Wednesdays, 4:00 PM - 5:00 PM'',
           max_participants = 14,
           participants = [''elijah@mergington.edu'', ''harper@mergington.edu'']\<rparr>"
    by (simp add: initial_activities_def activity_data.truncate_def)
  from e ne w1 w2 w3 show ?thesis by blast
qed

section \<open>The listing\<close>

text \<open>
  Claim C8. For every collection, the answer of \<open>get_activities\<close> is keyed by the names of
  the stored activities. Each value holds the four fields description, schedule,
  max_participants and participants of a stored document of that name, and that document
  is the value extended by the name key. When the names are unique, every stored document
  is returned under its name.
\<close>

theorem get_activities_shape:
  "dom (get_activities c) = doc_id ` set c \<and>
   (\<forall>n v. get_activities c n = Some v \<longrightarrow>
      (\<exists>d \<in> set c. doc_id d = n \<and>
         v = \<lparr>description = description d, schedule = schedule d,
              max_participants = max_participants d, participants = participants d\<rparr> \<and>
         d = activity_data.extend v (document.fields n))) \<and>
   (distinct (map doc_id c) \<longrightarrow>
      (\<forall>d \<in> set c. get_activities c (doc_id d) =
         Some \<lparr>description = description d, schedule = schedule d,
               max_participants = max_participants d, participants = participants d\<rparr>))"
proof (intro conjI allI impI ballI)
  show "dom (get_activities c) = doc_id ` set c" by (rule dom_get_activities)
next
  fix n v
  assume "get_activities c n = Some v"
  then obtain d where d: "find_one n (rev c) = Some d" and v: "v = activity_data.truncate d"
    by (auto simp: get_activities_lookup)
  from d have "d \<in> set c" "doc_id d = n" using find_one_in_set [of n "rev c" d] by simp_all
  moreover from v have "v = \<lparr>description = description d, schedule = schedule d,
              max_participants = max_participants d, participants = participants d\<rparr>"
    by (simp add: activity_data.truncate_def)
  moreover from v \<open>doc_id d = n\<close> have "d = activity_data.extend v (document.fields n)"
    using extend_truncate [of d] by simp
  ultimately show "\<exists>d \<in> set c. doc_id d = n \<and>
         v = \<lparr>description = description d, schedule = schedule d,
              max_participants = max_participants d, participants = participants d\<rparr> \<and>
         d = activity_data.extend v (document.fields n)"
    by blast
next
  fix d
  assume "distinct (map doc_id c)" "d \<in> set c"
  then show "get_activities c (doc_id d) =
         Some \<lparr>description = description d, schedule = schedule d,
               max_participants = max_participants d, participants = participants d\<rparr>"
    using get_activities_distinct [of c d] by (simp add: activity_data.truncate_def)
qed

theorem get_activities_shape_witness:
  "distinct (map doc_id initial_activities) \<and>
   hd initial_activities \<in> set initial_activities \<and>
   get_activities initial_activities ''Chess Club'' =
     Some \<lparr>description = ''Learn strategies and compete in chess tournaments'',
           schedule = ''Fridays, 3:30 PM - 5:00 PM'',
           max_participants = 12,
           participants = [''michael@mergington.edu'', ''daniel@mergington.edu'']\<rparr> \<and>
   (\<exists>d \<in> set initial_activities. doc_id d = ''Chess Club'' \<and>
      d = activity_data.extend
        \<lparr>description = ''Learn strategies and compete in chess tournaments'',
         schedule = ''Fridays, 3:30 PM - 5:00 PM'',
         max_participants = 12,
         participants = [''michael@mergington.edu'', ''daniel@mergington.edu'']\<rparr>
        (document.fields ''Chess Club''))"
proof -
  let ?v = "\<lparr>description = ''Learn strategies and compete in chess tournaments'',
           schedule = ''Fridays, 3:30 PM - 5:00 PM'',
           max_participants = 12,
           participants = [''michael@mergington.edu'', ''daniel@mergington.edu'']\<rparr>"
  have dist: "distinct (map doc_id initial_activities)"
    by (simp add: initial_activities_def)
  have chess: "hd initial_activities \<in> set initial_activities"
    by (simp add: initial_activities_def)
  from get_activities_shape [of initial_activities] dist chess
  have "get_activities initial_activities (doc_id (hd initial_activities)) =
     Some \<lparr>description = description (hd initial_activities),
           schedule = schedule (hd initial_activities),
           max_participants = max_participants (hd initial_activities),
           participants = participants (hd initial_activities)\<rparr>"
    by blast
  then have w1: "get_activities initial_activities ''Chess Club'' = Some ?v"
    by (simp add: initial_activities_def)
  from get_activities_shape [of initial_activities] w1
  have w2: "\<exists>d \<in> set initial_activities. doc_id d = ''Chess Club'' \<and>
      d = activity_data.extend ?v (document.fields ''Chess Club'')"
    by blast
  from dist chess w1 w2 show ?thesis by blast
qed

section \<open>The order of the checks\<close>

text \<open>
  Claim C9. When the email is already among the participants of the activity and the
  participants are also at or above capacity, the signup is answered with "Already signed up
  for this activity", not with "Activity is full".
\<close>

theorem registered_before_full:
  "find_one n c = Some A \<Longrightarrow> e \<in> set (participants A) \<Longrightarrow>
   int (length (participants A)) \<ge> max_participants A \<Longrightarrow>
   fst (signup_for_activity c n e) =
     Inl (HTTPException 400 ''Already signed up for this activity'') \<and>
   fst (signup_for_activity c n e) \<noteq> Inl (HTTPException 400 ''Activity is full'')"
  by (simp add: signup_for_activity_def)

theorem registered_before_full_witness:
  "''a@mergington.edu'' \<in> set [''a@mergington.edu'', ''b@mergington.edu''] \<and>
   int (length [''a@mergington.edu'', ''b@mergington.edu'']) \<ge> 2 \<and>
   fst (signup_for_activity
     [\<lparr>description = ''Duet'', schedule = ''Mondays'', max_participants = 2,
       participants = [''a@mergington.edu'', ''b@mergington.edu''], doc_id = ''Duet''\<rparr>]
     ''Duet'' ''a@mergington.edu'') =
     Inl (HTTPException 400 ''Already signed up for this activity'')"
proof -
  let ?duet = "\<lparr>description = ''Duet'', schedule = ''Mondays'', max_participants = 2,
       participants = [''a@mergington.edu'', ''b@mergington.edu''], doc_id = ''Duet''\<rparr>"
  have found: "find_one ''Duet'' [?duet] = Some ?duet" by simp
  have member: "''a@mergington.edu'' \<in> set (participants ?duet)" by simp
  have full: "int (length (participants ?duet)) \<ge> max_participants ?duet" by simp
  from registered_before_full [OF found member full] show ?thesis by simp
qed

section \<open>What a write leaves alone\<close>

text \<open>
  Claim C10. A successful signup or unregister for the name \<open>n\<close> leaves the collection at
  its length; every document keeps all its fields except possibly the participants, and a
  document of another name is not changed at all. No request, successful or not, changes
  the list of activity names, and neither does a run of successful requests.
\<close>

theorem write_frame:
  "((r = Signup n e \<or> r = Unregister n e) \<and> handle c r = (Inr body, c') \<longrightarrow>
      length c' = length c \<and>
      (\<forall>i < length c.
         c' ! i = (c ! i)\<lparr>participants := participants (c' ! i)\<rparr> \<and>
         (doc_id (c ! i) \<noteq> n \<longrightarrow> c' ! i = c ! i))) \<and>
   map doc_id (snd (handle c r)) = map doc_id c \<and>
   (run_successful c rs = Some c'' \<longrightarrow> map doc_id c'' = map doc_id c)"
proof (intro conjI impI allI)
  assume a: "(r = Signup n e \<or> r = Unregister n e) \<and> handle c r = (Inr body, c')"
  then have "c' = c \<or> (\<exists>f. c' = update_one n (\<lambda>d. d\<lparr>participants := f (participants d)\<rparr>) c)"
    using handle_cases [of c r "Inr body" c' n e] by blast
  then show "length c' = length c" by (auto simp: length_update_one)
next
  fix i
  assume a: "(r = Signup n e \<or> r = Unregister n e) \<and> handle c r = (Inr body, c')"
    and i: "i < length c"
  then have "c' = c \<or> (\<exists>f. c' = update_one n (\<lambda>d. d\<lparr>participants := f (participants d)\<rparr>) c)"
    using handle_cases [of c r "Inr body" c' n e] by blast
  then show "c' ! i = (c ! i)\<lparr>participants := participants (c' ! i)\<rparr>"
  proof
    assume "c' = c"
    then show ?thesis by simp
  next
    assume "\<exists>f. c' = update_one n (\<lambda>d. d\<lparr>participants := f (participants d)\<rparr>) c"
    then obtain f where "c' = update_one n (\<lambda>d. d\<lparr>participants := f (participants d)\<rparr>) c" ..
    with update_one_participants_nth [OF i, of n f] show ?thesis by simp
  qed
next
  fix i
  assume a: "(r = Signup n e \<or> r = Unregister n e) \<and> handle c r = (Inr body, c')"
    and i: "i < length c" and other: "doc_id (c ! i) \<noteq> n"
  then have "c' = c \<or> (\<exists>f. c' = update_one n (\<lambda>d. d\<lparr>participants := f (participants d)\<rparr>) c)"
    using handle_cases [of c r "Inr body" c' n e] by blast
  with update_one_nth_other [OF i other] show "c' ! i = c ! i" by auto
next
  show "map doc_id (snd (handle c r)) = map doc_id c" by (rule handle_ids)
next
  assume "run_successful c rs = Some c''"
  then show "map doc_id c'' = map doc_id c" by (rule run_ids)
qed

theorem write_frame_witness:
  "handle initial_activities (Signup ''Chess Club'' ''new@mergington.edu'') =
     (Inr [(''message'', ''Signed up new@mergington.edu for Chess Club'')],
      \<lparr>description = ''Learn strategies and compete in chess tournaments'',
       schedule = ''Fridays, 3:30 PM - 5:00 PM'',
       max_participants = 12,
       participants = [''michael@mergington.edu'', ''daniel@mergington.edu'',
                       ''new@mergington.edu''],
       doc_id = ''Chess Club''\<rparr> # tl initial_activities) \<and>
   (1::nat) < length initial_activities \<and>
   doc_id (initial_activities ! 1) \<noteq> ''Chess Club'' \<and>
   (\<lparr>description = ''Learn strategies and compete in chess tournaments'',
       schedule = ''Fridays, 3:30 PM - 5:00 PM'',
       max_participants = 12,
       participants = [''michael@mergington.edu'', ''daniel@mergington.edu'',
                       ''new@mergington.edu''],
       doc_id = ''Chess Club''\<rparr> # tl initial_activities) ! 1 = initial_activities ! 1 \<and>
   run_successful initial_activities [Unregister ''Gym Class'' ''john@mergington.edu''] \<noteq> None \<and>
   map doc_id (the (run_successful initial_activities
     [Unregister ''Gym Class'' ''john@mergington.edu''])) = map doc_id initial_activities"
proof -
  let ?A = "\<lparr>description = ''Learn strategies and compete in chess tournaments'',
       schedule = ''Fridays, 3:30 PM - 5:00 PM'',
       max_participants = 12,
       participants = [''michael@mergington.edu'', ''daniel@mergington.edu'',
                       ''new@mergington.edu''],
       doc_id = ''Chess Club''\<rparr>"
  have h: "handle initial_activities (Signup ''Chess Club'' ''new@mergington.edu'') =
     (Inr [(''message'', ''Signed up new@mergington.edu for Chess Club'')],
      ?A # tl initial_activities)"
    by (simp add: initial_activities_def signup_for_activity_def addToSet_def)
  have i: "(1::nat) < length initial_activities"
    by (simp add: initial_activities_def)
  have other: "doc_id (initial_activities ! 1) \<noteq> ''Chess Club''"
    by (simp add: initial_activities_def)
  have "\<exists>c. run_successful initial_activities
      [Unregister ''Gym Class'' ''john@mergington.edu''] = Some c"
    by (simp add: initial_activities_def unregister_from_activity_def)
  then obtain c2 where run: "run_successful initial_activities
      [Unregister ''Gym Class'' ''john@mergington.edu''] = Some c2" ..
  from write_frame [where r = "Signup ''Chess Club'' ''new@mergington.edu''"
      and n = "''Chess Club''" and e = "''new@mergington.edu''" and c = initial_activities
      and body = "[(''message'', ''Signed up new@mergington.edu for Chess Club'')]"
      and c' = "?A # tl initial_activities"] h i other
  have w1: "(?A # tl initial_activities) ! 1 = initial_activities ! 1"
    by blast
  from write_frame [where c = initial_activities
      and rs = "[Unregister ''Gym Class'' ''john@mergington.edu'']" and c'' = c2] run
  have w2: "map doc_id c2 = map doc_id initial_activities"
    by blast
  from h i other w1 w2 run show ?thesis by simp
qed

end
